theory Spec2Isabelle
  imports Complex_Main
begin

section \<open>Vector arithmetic\<close>

text \<open>
  JavaScript numbers are modelled as real numbers: every theorem below is about the
  exact arithmetic of the formulas the code evaluates. Objects mutated in place are
  modelled by explicit state passing: an operation takes the old value and returns the
  new one. The vectors held by distinct balls are distinct objects in the source
  (\<open>Ball\<close>'s constructor clones \<open>pos\<close> and \<open>vel\<close>), so value semantics loses nothing.
\<close>

record Vector2 =
  x :: real
  y :: real

text \<open>\<open>Vector2.add(v, s)\<close>: \<open>this.x += v.x * s; this.y += v.y * s\<close>.\<close>

definition add :: "Vector2 \<Rightarrow> Vector2 \<Rightarrow> real \<Rightarrow> Vector2" where
  "add u v s = u\<lparr>x := x u + x v * s, y := y u + y v * s\<rparr>"

text \<open>\<open>Vector2.subtractVectors(a, b)\<close> overwrites the receiver with \<open>a - b\<close>.\<close>

definition subtractVectors :: "Vector2 \<Rightarrow> Vector2 \<Rightarrow> Vector2" where
  "subtractVectors a b = \<lparr>x = x a - x b, y = y a - y b\<rparr>"

text \<open>\<open>Vector2.length()\<close>; the name \<open>length\<close> belongs to lists.\<close>

definition length_v :: "Vector2 \<Rightarrow> real" where
  "length_v u = sqrt (x u * x u + y u * y u)"

definition scale :: "Vector2 \<Rightarrow> real \<Rightarrow> Vector2" where
  "scale u s = u\<lparr>x := x u * s, y := y u * s\<rparr>"

definition dot :: "Vector2 \<Rightarrow> Vector2 \<Rightarrow> real" where
  "dot u v = x u * x v + y u * y v"

text \<open>\<open>Vector.normalize()\<close> of the cue demo: a vector of length 0 is left as it is.\<close>

definition normalize :: "Vector2 \<Rightarrow> Vector2" where
  "normalize u = (let len = length_v u in if len > 0 then scale u (1 / len) else u)"

section \<open>Balls and the integrator\<close>

text \<open>
  \<open>class Ball\<close> of \<open>ch-03/index.js\<close>: the constructor stores \<open>radius\<close> and \<open>mass\<close> as
  given and clones \<open>pos\<close> and \<open>vel\<close>. Every construction site of the source passes
  \<open>Math.PI * radius * radius\<close> as the mass.
\<close>

record Ball =
  radius :: real
  mass :: real
  pos :: Vector2
  vel :: Vector2

definition disc_mass :: "real \<Rightarrow> real" where
  "disc_mass r = pi * r * r"

text \<open>
  A ball as the source builds it: \<open>new Ball(radius, Math.PI * radius * radius, pos, vel)\<close>
  in \<open>ch-03/index.js\<close> and the cue demo, and the constructor of \<open>index3.js\<close>, which
  computes the mass itself.
\<close>

definition Ball_new :: "real \<Rightarrow> Vector2 \<Rightarrow> Vector2 \<Rightarrow> Ball" where
  "Ball_new r p v = \<lparr>radius = r, mass = disc_mass r, pos = p, vel = v\<rparr>"

text \<open>\<open>Ball.simulate(dt, gravity)\<close>: \<open>this.vel.add(gravity, dt); this.pos.add(this.vel, dt)\<close>.\<close>

definition simulate :: "real \<Rightarrow> Vector2 \<Rightarrow> Ball \<Rightarrow> Ball" where
  "simulate dt gravity ball =
     (let ball = ball\<lparr>vel := add (vel ball) gravity dt\<rparr>
      in ball\<lparr>pos := add (pos ball) (vel ball) dt\<rparr>)"

text \<open>
  The single-ball demo keeps the ball's coordinates in scalar fields
  \<open>radius, x, y, vx, vy\<close>; the fields carry a suffix here because \<open>radius\<close>, \<open>x\<close> and
  \<open>y\<close> are taken by the records above.
\<close>

record Ball0 =
  radius0 :: real
  x0 :: real
  y0 :: real
  vx0 :: real
  vy0 :: real

definition move :: "real \<Rightarrow> Ball0 \<Rightarrow> Ball0" where
  "move timeStep b = b\<lparr>x0 := x0 b + vx0 b * timeStep, y0 := y0 b + vy0 b * timeStep\<rparr>"

definition applyGravity :: "real \<Rightarrow> real \<Rightarrow> real \<Rightarrow> Ball0 \<Rightarrow> Ball0" where
  "applyGravity gx gy timeStep b =
     b\<lparr>vx0 := vx0 b + gx * timeStep, vy0 := vy0 b + gy * timeStep\<rparr>"

text \<open>
  \<open>Core.handleCollision()\<close> of the single-ball demo: three checks in sequence on the
  centre of the ball, each reading the position the previous one left; there is no
  ceiling check.
\<close>

definition handleCollision :: "real \<Rightarrow> Ball0 \<Rightarrow> Ball0" where
  "handleCollision simWidth b =
     (let b = (if x0 b < 0 then b\<lparr>x0 := 0, vx0 := - vx0 b\<rparr> else b);
          b = (if x0 b > simWidth then b\<lparr>x0 := simWidth, vx0 := - vx0 b\<rparr> else b);
          b = (if y0 b < 0 then b\<lparr>y0 := 0, vy0 := - vy0 b\<rparr> else b)
      in b)"

text \<open>
  \<open>Core.simulate()\<close> of the single-ball demo, with the fields it reads (\<open>gravity\<close>,
  \<open>timeStep\<close>, \<open>scene.simWidth\<close>) as parameters.
\<close>

definition simulate0 :: "real \<Rightarrow> real \<Rightarrow> real \<Rightarrow> real \<Rightarrow> Ball0 \<Rightarrow> Ball0" where
  "simulate0 gx gy timeStep simWidth b =
     handleCollision simWidth (move timeStep (applyGravity gx gy timeStep b))"

section \<open>Pairwise collision\<close>

text \<open>
  The two post-collision speeds along the contact normal, as \<open>handleBallsCollision\<close>
  computes them into its locals \<open>newV1\<close> and \<open>newV2\<close>. The division by \<open>m1 + m2\<close> is
  unguarded in the source; the theorems below assume that sum is not zero, where the
  real quotient is what the code computes.
\<close>

definition newV1 :: "real \<Rightarrow> real \<Rightarrow> real \<Rightarrow> real \<Rightarrow> real \<Rightarrow> real" where
  "newV1 m1 m2 v1 v2 restitution =
     (m1 * v1 + m2 * v2 - m2 * (v1 - v2) * restitution) / (m1 + m2)"

definition newV2 :: "real \<Rightarrow> real \<Rightarrow> real \<Rightarrow> real \<Rightarrow> real \<Rightarrow> real" where
  "newV2 m1 m2 v1 v2 restitution =
     (m1 * v1 + m2 * v2 - m1 * (v2 - v1) * restitution) / (m1 + m2)"

text \<open>
  \<open>handleBallsCollision(ball1, ball2, restitution)\<close>, the same text in
  \<open>ch-03/index.js\<close> (\<open>Core\<close>) and \<open>ch-03-practice/index3.js\<close> (\<open>Renderer\<close>). The
  result is the pair of balls after the call.
\<close>

definition handleBallsCollision :: "Ball \<Rightarrow> Ball \<Rightarrow> real \<Rightarrow> Ball \<times> Ball" where
  "handleBallsCollision ball1 ball2 restitution =
     (let dir = subtractVectors (pos ball2) (pos ball1);
          d = length_v dir
      in if d = 0 \<or> d > radius ball1 + radius ball2 then (ball1, ball2)
         else
           let dir = scale dir (1 / d);
               corr = (radius ball1 + radius ball2 - d) / 2;
               ball1 = ball1\<lparr>pos := add (pos ball1) dir (- corr)\<rparr>;
               ball2 = ball2\<lparr>pos := add (pos ball2) dir corr\<rparr>;
               v1 = dot (vel ball1) dir;
               v2 = dot (vel ball2) dir;
               m1 = mass ball1;
               m2 = mass ball2;
               nv1 = newV1 m1 m2 v1 v2 restitution;
               nv2 = newV2 m1 m2 v1 v2 restitution
           in (ball1\<lparr>vel := add (vel ball1) dir (nv1 - v1)\<rparr>,
               ball2\<lparr>vel := add (vel ball2) dir (nv2 - v2)\<rparr>))"

text \<open>
  Names for what the statements below talk about: the distance between the centres,
  the condition under which the resolver goes past its guard, and the unit direction
  from the first centre to the second (the local \<open>dir\<close> after \<open>dir.scale(1.0 / d)\<close>).
\<close>

definition distance :: "Ball \<Rightarrow> Ball \<Rightarrow> real" where
  "distance ball1 ball2 = length_v (subtractVectors (pos ball2) (pos ball1))"

definition colliding :: "Ball \<Rightarrow> Ball \<Rightarrow> bool" where
  "colliding ball1 ball2 \<longleftrightarrow>
     \<not> (distance ball1 ball2 = 0 \<or> distance ball1 ball2 > radius ball1 + radius ball2)"

definition normal :: "Ball \<Rightarrow> Ball \<Rightarrow> Vector2" where
  "normal ball1 ball2 =
     scale (subtractVectors (pos ball2) (pos ball1)) (1 / distance ball1 ball2)"

definition kinetic :: "real \<Rightarrow> real \<Rightarrow> real \<Rightarrow> real \<Rightarrow> real" where
  "kinetic m1 v1 m2 v2 = 1 / 2 * m1 * (v1 * v1) + 1 / 2 * m2 * (v2 * v2)"

section \<open>Walls\<close>

text \<open>
  \<open>Core.handleWallsCollision(ball, worldSize)\<close> of \<open>ch-03/index.js\<close>: four checks in
  sequence (left, right, bottom, top), each reading the position the previous one
  left. The velocity component is negated; no restitution factor is applied.
\<close>

definition handleWallsCollision :: "Ball \<Rightarrow> Vector2 \<Rightarrow> Ball" where
  "handleWallsCollision ball worldSize =
     (let ball = (if x (pos ball) < radius ball
                  then ball\<lparr>pos := (pos ball)\<lparr>x := radius ball\<rparr>,
                            vel := (vel ball)\<lparr>x := - x (vel ball)\<rparr>\<rparr>
                  else ball);
          ball = (if x (pos ball) > x worldSize - radius ball
                  then ball\<lparr>pos := (pos ball)\<lparr>x := x worldSize - radius ball\<rparr>,
                            vel := (vel ball)\<lparr>x := - x (vel ball)\<rparr>\<rparr>
                  else ball);
          ball = (if y (pos ball) < radius ball
                  then ball\<lparr>pos := (pos ball)\<lparr>y := radius ball\<rparr>,
                            vel := (vel ball)\<lparr>y := - y (vel ball)\<rparr>\<rparr>
                  else ball);
          ball = (if y (pos ball) > y worldSize - radius ball
                  then ball\<lparr>pos := (pos ball)\<lparr>y := y worldSize - radius ball\<rparr>,
                            vel := (vel ball)\<lparr>y := - y (vel ball)\<rparr>\<rparr>
                  else ball)
      in ball)"

text \<open>
  \<open>class World\<close> of the cue demo (\<open>ch-03-practice/index.js\<close>); its field \<open>size\<close> is
  \<open>size_w\<close> here. \<open>World.handleWallCollision(ball)\<close> tests and clamps the centre of
  the ball (right, left, bottom, top) and never reads the radius.
\<close>

record World =
  size_w :: Vector2
  gravity_w :: Vector2
  restitution_w :: real

definition World_handleWallCollision :: "World \<Rightarrow> Ball \<Rightarrow> Ball" where
  "World_handleWallCollision world ball =
     (let ball = (if x (pos ball) > x (size_w world)
                  then ball\<lparr>pos := (pos ball)\<lparr>x := x (size_w world)\<rparr>,
                            vel := (vel ball)\<lparr>x := - x (vel ball)\<rparr>\<rparr>
                  else ball);
          ball = (if x (pos ball) < 0
                  then ball\<lparr>pos := (pos ball)\<lparr>x := 0\<rparr>,
                            vel := (vel ball)\<lparr>x := - x (vel ball)\<rparr>\<rparr>
                  else ball);
          ball = (if y (pos ball) < 0
                  then ball\<lparr>pos := (pos ball)\<lparr>y := 0\<rparr>,
                            vel := (vel ball)\<lparr>y := - y (vel ball)\<rparr>\<rparr>
                  else ball);
          ball = (if y (pos ball) > y (size_w world)
                  then ball\<lparr>pos := (pos ball)\<lparr>y := y (size_w world)\<rparr>,
                            vel := (vel ball)\<lparr>y := - y (vel ball)\<rparr>\<rparr>
                  else ball)
      in ball)"

text \<open>
  \<open>Renderer.handleWallCollision(ball)\<close> of \<open>ch-03-practice/index3.js\<close>: top, bottom,
  right, left; the world is \<open>canvas.width / scale\<close> by \<open>canvas.height / scale\<close> with
  \<open>scale = 20\<close>, and the reflected component is multiplied by 0.9.
\<close>

definition scale_r :: real where
  "scale_r = 20"

definition Renderer_handleWallCollision :: "real \<Rightarrow> real \<Rightarrow> Ball \<Rightarrow> Ball" where
  "Renderer_handleWallCollision canvas_width canvas_height ball =
     (let ball = (if y (pos ball) + radius ball > canvas_height / scale_r
                  then ball\<lparr>pos := (pos ball)\<lparr>y := canvas_height / scale_r - radius ball\<rparr>,
                            vel := (vel ball)\<lparr>y := - y (vel ball) * (9 / 10)\<rparr>\<rparr>
                  else ball);
          ball = (if y (pos ball) - radius ball < 0
                  then ball\<lparr>pos := (pos ball)\<lparr>y := radius ball\<rparr>,
                            vel := (vel ball)\<lparr>y := - y (vel ball) * (9 / 10)\<rparr>\<rparr>
                  else ball);
          ball = (if x (pos ball) + radius ball > canvas_width / scale_r
                  then ball\<lparr>pos := (pos ball)\<lparr>x := canvas_width / scale_r - radius ball\<rparr>,
                            vel := (vel ball)\<lparr>x := - x (vel ball) * (9 / 10)\<rparr>\<rparr>
                  else ball);
          ball = (if x (pos ball) - radius ball < 0
                  then ball\<lparr>pos := (pos ball)\<lparr>x := radius ball\<rparr>,
                            vel := (vel ball)\<lparr>x := - x (vel ball) * (9 / 10)\<rparr>\<rparr>
                  else ball)
      in ball)"

section \<open>The cue\<close>

text \<open>
  \<open>class Cue\<close>. The field \<open>power\<close> is \<open>power_c\<close> here (\<open>power\<close> is exponentiation),
  \<open>angle\<close> is \<open>undefined\<close> or a number, and \<open>Date.now()\<close> is an explicit argument
  \<open>now\<close> of the two methods that read the clock.
\<close>

record Cue =
  power_c :: real
  direction :: Vector2
  angle :: "real option"
  isCharging :: bool
  startChargeTime :: real
  shift :: real

definition Cue_new :: Cue where
  "Cue_new = \<lparr>power_c = 0, direction = \<lparr>x = 0, y = 0\<rparr>, angle = None,
              isCharging = False, startChargeTime = 0, shift = 0\<rparr>"

definition startCharge :: "real \<Rightarrow> Cue \<Rightarrow> Cue" where
  "startCharge now cue = cue\<lparr>isCharging := True, startChargeTime := now\<rparr>"

definition K :: real where
  "K = 3"

definition getCurveValue :: "real \<Rightarrow> real \<Rightarrow> real \<Rightarrow> real" where
  "getCurveValue maxValue minValue t = maxValue - (maxValue - minValue) * exp (- K * t)"

definition MIN_POWER :: real where "MIN_POWER = 10"
definition MAX_POWER :: real where "MAX_POWER = 100"
definition CHARGE_TIME :: real where "CHARGE_TIME = 2000"
definition MIN_SHIFT :: real where "MIN_SHIFT = 0"
definition MAX_SHIFT :: real where "MAX_SHIFT = 30"

definition updateCharge :: "real \<Rightarrow> Cue \<Rightarrow> Cue" where
  "updateCharge now cue =
     (if \<not> isCharging cue then cue
      else
        let elapsedTime = now - startChargeTime cue;
            normalizedTime = min (elapsedTime / CHARGE_TIME) 1
        in cue\<lparr>power_c := getCurveValue MAX_POWER MIN_POWER normalizedTime,
                shift := getCurveValue MAX_SHIFT MIN_SHIFT normalizedTime\<rparr>)"

definition reset :: "Cue \<Rightarrow> Cue" where
  "reset cue = cue\<lparr>isCharging := False, startChargeTime := 0, power_c := 0, angle := None\<rparr>"

text \<open>
  \<open>Cue.release(ball)\<close> changes the ball's velocity and the cue; the result is the pair
  of both. The division by \<open>ball.mass\<close> is unguarded in the source.
\<close>

definition release :: "Ball \<Rightarrow> Cue \<Rightarrow> Ball \<times> Cue" where
  "release ball cue =
     (if \<not> isCharging cue then (ball, cue)
      else
        let stickMass = pi * (1 / 2) * (1 / 2) * 2;
            stickVel = power_c cue / 2;
            ballVelAfter = (stickMass * stickVel) / mass ball
        in (ball\<lparr>vel := add (vel ball) (direction cue) (- ballVelAfter)\<rparr>, reset cue))"

text \<open>
  \<open>class Game\<close> owns the world, the ball and the cue. Its key handlers receive the
  event's \<open>code\<close>; \<open>handleKeyDown\<close> is the only caller of \<open>startCharge\<close> and
  \<open>handleKeyUp\<close> the only caller of \<open>release\<close>.
\<close>

record Game =
  world :: World
  ball :: Ball
  cue :: Cue

definition handleKeyDown :: "string \<Rightarrow> real \<Rightarrow> Game \<Rightarrow> Game" where
  "handleKeyDown code now game =
     (if code = ''Space'' \<and> \<not> isCharging (cue game)
      then game\<lparr>cue := startCharge now (cue game)\<rparr>
      else game)"

definition handleKeyUp :: "string \<Rightarrow> Game \<Rightarrow> Game" where
  "handleKeyUp code game =
     (if code = ''Space''
      then (case release (ball game) (cue game) of
              (ball', cue') \<Rightarrow> game\<lparr>ball := ball', cue := cue'\<rparr>)
      else game)"

section \<open>Sample inputs\<close>

text \<open>
  Concrete balls, worlds and cues at which the statements below are evaluated. They are
  abbreviations: a statement that names one is a statement about the record written here.
\<close>

abbreviation first_ball :: Ball where
  "first_ball \<equiv> \<lparr>radius = 1, mass = 2, pos = \<lparr>x = 0, y = 0\<rparr>, vel = \<lparr>x = 3, y = 1\<rparr>\<rparr>"

abbreviation second_ball :: Ball where
  "second_ball \<equiv>
     \<lparr>radius = 1, mass = 1, pos = \<lparr>x = 3 / 2, y = 0\<rparr>, vel = \<lparr>x = 0, y = - 1\<rparr>\<rparr>"

abbreviation unit_ball :: "real \<Rightarrow> real \<Rightarrow> Ball" where
  "unit_ball px vx \<equiv> Ball_new (1 / sqrt pi) \<lparr>x = px, y = 0\<rparr> \<lparr>x = vx, y = 0\<rparr>"

abbreviation ball_past_left_wall :: "real \<Rightarrow> Ball" where
  "ball_past_left_wall vx \<equiv>
     \<lparr>radius = 1 / 2, mass = pi / 4, pos = \<lparr>x = - 1 / 10, y = 5\<rparr>, vel = \<lparr>x = vx, y = 3\<rparr>\<rparr>"

abbreviation worldSize_10 :: Vector2 where
  "worldSize_10 \<equiv> \<lparr>x = 10, y = 10\<rparr>"

abbreviation world_10 :: World where
  "world_10 \<equiv> \<lparr>size_w = worldSize_10, gravity_w = \<lparr>x = 0, y = 0\<rparr>, restitution_w = 1\<rparr>"


abbreviation cue_ball :: Ball where
  "cue_ball \<equiv> Ball_new (1 / 2) \<lparr>x = 3, y = 4\<rparr> \<lparr>x = 0, y = 0\<rparr>"

abbreviation charged_cue :: Cue where
  "charged_cue \<equiv>
     \<lparr>power_c = 50, direction = \<lparr>x = 1, y = 0\<rparr>, angle = Some 0,
      isCharging = True, startChargeTime = 1000, shift = 15\<rparr>"

abbreviation game_with :: "Cue \<Rightarrow> Game" where
  "game_with c \<equiv>
     \<lparr>world = \<lparr>size_w = \<lparr>x = 20, y = 20\<rparr>, gravity_w = \<lparr>x = 0, y = 0\<rparr>, restitution_w = 1\<rparr>,
      ball = cue_ball, cue = c\<rparr>"

section \<open>Facts about the pairwise resolver\<close>

lemma distance_sq:
  "distance b1 b2 * distance b1 b2 =
     (x (pos b2) - x (pos b1)) * (x (pos b2) - x (pos b1))
   + (y (pos b2) - y (pos b1)) * (y (pos b2) - y (pos b1))"
  by (simp add: distance_def length_v_def subtractVectors_def)

lemma distance_nonneg: "0 \<le> distance b1 b2"
  by (simp add: distance_def length_v_def)

lemma normal_dot_self:
  assumes "distance b1 b2 \<noteq> 0"
  shows "dot (normal b1 b2) (normal b1 b2) = 1"
proof -
  let ?d = "distance b1 b2"
  let ?dx = "x (pos b2) - x (pos b1)"
  let ?dy = "y (pos b2) - y (pos b1)"
  have "dot (normal b1 b2) (normal b1 b2) = (?dx * ?dx + ?dy * ?dy) / (?d * ?d)"
    by (simp add: dot_def normal_def scale_def subtractVectors_def add_divide_distrib)
  also have "\<dots> = (?d * ?d) / (?d * ?d)"
    by (simp only: distance_sq)
  also have "\<dots> = 1"
    using assms by simp
  finally show ?thesis .
qed

lemma length_normal:
  "distance b1 b2 \<noteq> 0 \<Longrightarrow> length_v (normal b1 b2) = 1"
  using normal_dot_self [of b1 b2] by (simp add: length_v_def dot_def)

lemma handleBallsCollision_colliding:
  assumes "colliding b1 b2"
  shows "handleBallsCollision b1 b2 e =
     (b1\<lparr>pos := add (pos b1) (normal b1 b2) (- ((radius b1 + radius b2 - distance b1 b2) / 2)),
         vel := add (vel b1) (normal b1 b2)
                  (newV1 (mass b1) (mass b2) (dot (vel b1) (normal b1 b2))
                     (dot (vel b2) (normal b1 b2)) e - dot (vel b1) (normal b1 b2))\<rparr>,
      b2\<lparr>pos := add (pos b2) (normal b1 b2) ((radius b1 + radius b2 - distance b1 b2) / 2),
         vel := add (vel b2) (normal b1 b2)
                  (newV2 (mass b1) (mass b2) (dot (vel b1) (normal b1 b2))
                     (dot (vel b2) (normal b1 b2)) e - dot (vel b2) (normal b1 b2))\<rparr>)"
  using assms
  by (simp add: handleBallsCollision_def colliding_def normal_def distance_def Let_def)

lemma handleBallsCollision_apart:
  "\<not> colliding b1 b2 \<Longrightarrow> handleBallsCollision b1 b2 e = (b1, b2)"
  by (simp add: handleBallsCollision_def colliding_def distance_def Let_def)

lemma dot_add_normal:
  "distance b1 b2 \<noteq> 0 \<Longrightarrow>
     dot (add u (normal b1 b2) s) (normal b1 b2) = dot u (normal b1 b2) + s"
proof -
  assume "distance b1 b2 \<noteq> 0"
  then have n: "dot (normal b1 b2) (normal b1 b2) = 1" by (rule normal_dot_self)
  have "dot (add u (normal b1 b2) s) (normal b1 b2)
          = dot u (normal b1 b2) + s * dot (normal b1 b2) (normal b1 b2)"
    by (simp add: dot_def add_def algebra_simps)
  then show ?thesis by (simp add: n)
qed

lemma momentum_formula:
  "m1 + m2 \<noteq> 0 \<Longrightarrow>
     m1 * newV1 m1 m2 v1 v2 e + m2 * newV2 m1 m2 v1 v2 e = m1 * v1 + m2 * v2"
proof -
  assume nz: "m1 + m2 \<noteq> 0"
  have "m1 * newV1 m1 m2 v1 v2 e + m2 * newV2 m1 m2 v1 v2 e
          = ((m1 + m2) * (m1 * v1 + m2 * v2)) / (m1 + m2)"
    unfolding newV1_def newV2_def
    by (simp add: add_divide_distrib [symmetric] algebra_simps)
  also have "\<dots> = m1 * v1 + m2 * v2"
    using nz by simp
  finally show ?thesis .
qed

lemma energy_formula:
  assumes "0 < m1" "0 < m2" "0 \<le> e" "e \<le> 1"
  shows "kinetic m1 (newV1 m1 m2 v1 v2 e) m2 (newV2 m1 m2 v1 v2 e) \<le> kinetic m1 v1 m2 v2"
proof -
  define M where "M = m1 + m2"
  define P where "P = m1 * v1 + m2 * v2"
  define w where "w = v1 - v2"
  define N1 where "N1 = P - m2 * w * e"
  define N2 where "N2 = P + m1 * w * e"
  have M: "0 < M" using assms by (simp add: M_def)
  have n1: "newV1 m1 m2 v1 v2 e = N1 / M"
    by (simp add: newV1_def N1_def M_def P_def w_def)
  have n2: "newV2 m1 m2 v1 v2 e = N2 / M"
    by (simp add: newV2_def N2_def M_def P_def w_def algebra_simps)
  have num: "m1 * (N1 * N1) + m2 * (N2 * N2) = M * (P * P + m1 * m2 * (w * w) * (e * e))"
    unfolding N1_def N2_def M_def by algebra
  have "m1 * (N1 / M * (N1 / M)) + m2 * (N2 / M * (N2 / M))
          = (m1 * (N1 * N1) + m2 * (N2 * N2)) / (M * M)"
    by (simp add: add_divide_distrib)
  also have "\<dots> = (P * P + m1 * m2 * (w * w) * (e * e)) / M"
    using M by (simp add: num)
  finally have after: "m1 * (N1 / M * (N1 / M)) + m2 * (N2 / M * (N2 / M))
          = (P * P + m1 * m2 * (w * w) * (e * e)) / M" .
  have "M * (m1 * (v1 * v1) + m2 * (v2 * v2)) = P * P + m1 * m2 * (w * w)"
    unfolding M_def P_def w_def by algebra
  then have before: "m1 * (v1 * v1) + m2 * (v2 * v2) = (P * P + m1 * m2 * (w * w)) / M"
    using M by (simp add: field_simps)
  have "e * e \<le> 1" using assms by (simp add: mult_le_one)
  moreover have "0 \<le> m1 * m2 * (w * w)" using assms by simp
  ultimately have "m1 * m2 * (w * w) * (e * e) \<le> m1 * m2 * (w * w)"
    by (simp add: mult_left_le)
  then have "(P * P + m1 * m2 * (w * w) * (e * e)) / M \<le> (P * P + m1 * m2 * (w * w)) / M"
    using M by (simp add: divide_right_mono)
  then have "m1 * (N1 / M * (N1 / M)) + m2 * (N2 / M * (N2 / M))
           \<le> m1 * (v1 * v1) + m2 * (v2 * v2)"
    by (simp only: after before)
  then have "(m1 * (N1 / M * (N1 / M)) + m2 * (N2 / M * (N2 / M))) / 2
           \<le> (m1 * (v1 * v1) + m2 * (v2 * v2)) / 2"
    by (rule divide_right_mono) simp
  moreover have "kinetic m1 a m2 b = (m1 * (a * a) + m2 * (b * b)) / 2" for a b
    by (simp add: kinetic_def add_divide_distrib)
  ultimately show ?thesis by (simp only: n1 n2)
qed

lemma disc_mass_sum_pos:
  assumes "colliding b1 b2"
      and "mass b1 = disc_mass (radius b1)" and "mass b2 = disc_mass (radius b2)"
  shows "0 < mass b1 + mass b2"
proof -
  have "0 < radius b1 + radius b2"
    using assms(1) distance_nonneg [of b1 b2] by (simp add: colliding_def)
  then have "radius b1 \<noteq> 0 \<or> radius b2 \<noteq> 0" by auto
  then have "0 < radius b1 * radius b1 + radius b2 * radius b2"
    by (metis add_pos_nonneg add_nonneg_pos zero_le_square not_real_square_gt_zero)
  then have "0 < pi * (radius b1 * radius b1 + radius b2 * radius b2)"
    by simp
  then show ?thesis
    by (simp add: assms(2,3) disc_mass_def algebra_simps)
qed

lemma separated_centres:
  assumes "distance b1 b2 \<noteq> 0" and "distance b1 b2 \<le> radius b1 + radius b2"
  shows "length_v (subtractVectors
            (add (pos b2) (normal b1 b2) ((radius b1 + radius b2 - distance b1 b2) / 2))
            (add (pos b1) (normal b1 b2) (- ((radius b1 + radius b2 - distance b1 b2) / 2))))
         = radius b1 + radius b2"
proof -
  define R where "R = radius b1 + radius b2"
  define d where "d = distance b1 b2"
  define nx where "nx = x (normal b1 b2)"
  define ny where "ny = y (normal b1 b2)"
  have dpos: "d \<noteq> 0" using assms(1) by (simp add: d_def)
  have R: "0 \<le> R" using assms(2) distance_nonneg [of b1 b2] by (simp add: R_def)
  have n1: "nx * nx + ny * ny = 1"
    using normal_dot_self [OF assms(1)] by (simp add: dot_def nx_def ny_def)
  have dx: "x (pos b2) - x (pos b1) = d * nx"
    using dpos by (simp add: nx_def normal_def scale_def subtractVectors_def d_def)
  have dy: "y (pos b2) - y (pos b1) = d * ny"
    using dpos by (simp add: ny_def normal_def scale_def subtractVectors_def d_def)
  have cx: "x (pos b2) + nx * ((R - d) / 2) - (x (pos b1) + nx * (- ((R - d) / 2))) = R * nx"
    using dx by (simp add: algebra_simps)
  have cy: "y (pos b2) + ny * ((R - d) / 2) - (y (pos b1) + ny * (- ((R - d) / 2))) = R * ny"
    using dy by (simp add: algebra_simps)
  have cx': "x (subtractVectors
            (add (pos b2) (normal b1 b2) ((R - d) / 2))
            (add (pos b1) (normal b1 b2) (- ((R - d) / 2)))) = R * nx"
    using cx by (simp add: subtractVectors_def add_def nx_def)
  have cy': "y (subtractVectors
            (add (pos b2) (normal b1 b2) ((R - d) / 2))
            (add (pos b1) (normal b1 b2) (- ((R - d) / 2)))) = R * ny"
    using cy by (simp add: subtractVectors_def add_def ny_def)
  have "length_v (subtractVectors
            (add (pos b2) (normal b1 b2) ((R - d) / 2))
            (add (pos b1) (normal b1 b2) (- ((R - d) / 2))))
        = sqrt (R * nx * (R * nx) + R * ny * (R * ny))"
    by (simp only: length_v_def cx' cy')
  also have "R * nx * (R * nx) + R * ny * (R * ny) = R * R * (nx * nx + ny * ny)"
    by (simp add: algebra_simps)
  also have "sqrt (R * R * (nx * nx + ny * ny)) = R"
    using R by (simp add: n1)
  finally show ?thesis by (simp add: R_def d_def)
qed

lemma distance_same_height:
  "y (pos b1) = y (pos b2) \<Longrightarrow> distance b1 b2 = \<bar>x (pos b2) - x (pos b1)\<bar>"
  by (simp add: distance_def length_v_def subtractVectors_def)

section \<open>Facts about the cue\<close>

lemma getCurveValue_mono:
  assumes "minValue \<le> maxValue" and "s \<le> t"
  shows "getCurveValue maxValue minValue s \<le> getCurveValue maxValue minValue t"
proof -
  have "exp (- K * t) \<le> exp (- K * s)"
    using assms(2) by (simp add: K_def)
  then have "(maxValue - minValue) * exp (- K * t) \<le> (maxValue - minValue) * exp (- K * s)"
    using assms(1) by (simp add: mult_left_mono)
  then show ?thesis
    by (simp add: getCurveValue_def)
qed

lemma normalizedTime_mono:
  "t1 \<le> t2 \<Longrightarrow> min ((t1 - s) / CHARGE_TIME) 1 \<le> min ((t2 - s) / CHARGE_TIME) (1::real)"
  by (simp add: CHARGE_TIME_def min_def)

lemma updateCharge_charging:
  "isCharging c \<Longrightarrow>
     updateCharge now c =
       c\<lparr>power_c := getCurveValue MAX_POWER MIN_POWER
                       (min ((now - startChargeTime c) / CHARGE_TIME) 1),
         shift := getCurveValue MAX_SHIFT MIN_SHIFT
                       (min ((now - startChargeTime c) / CHARGE_TIME) 1)\<rparr>"
  by (simp add: updateCharge_def Let_def)

lemma updateCharge_twice:
  "isCharging c \<Longrightarrow> updateCharge t2 (updateCharge t1 c) = updateCharge t2 c"
  by (simp add: updateCharge_charging)

section \<open>Facts about two balls of unit mass\<close>

lemma disc_mass_unit: "disc_mass (1 / sqrt pi) = 1"
  by (simp add: disc_mass_def)

lemma two_unit_radii_bounds: "1 \<le> 2 / sqrt pi \<and> 2 / sqrt pi < 3 / 2"
proof -
  have "sqrt pi \<le> 2"
    by (rule real_le_lsqrt) (use pi_less_4 in simp_all)
  moreover have "4 / 3 < sqrt pi"
    by (rule real_less_rsqrt) (use pi_ge_two in \<open>simp add: power2_eq_square\<close>)
  moreover have "0 < sqrt pi" by simp
  ultimately show ?thesis
    by (simp add: field_simps)
qed

section \<open>Facts about the wall handlers\<close>

text \<open>
  Each handler runs its checks in sequence on the position the previous check left.
  When the world is at least a diameter wide and high (for the handlers that test the
  centre: when its sides are not negative), at most one of two opposite checks fires and
  the result has a closed form.
\<close>

lemma handleWallsCollision_x:
  assumes "2 * radius b \<le> x ws"
  shows "x (pos (handleWallsCollision b ws))
           = (if x (pos b) < radius b then radius b
              else if x ws - radius b < x (pos b) then x ws - radius b else x (pos b))"
    and "x (vel (handleWallsCollision b ws))
           = (if x (pos b) < radius b \<or> x ws - radius b < x (pos b)
              then - x (vel b) else x (vel b))"
  using assms by (simp_all add: handleWallsCollision_def Let_def)

lemma handleWallsCollision_y:
  assumes "2 * radius b \<le> y ws"
  shows "y (pos (handleWallsCollision b ws))
           = (if y (pos b) < radius b then radius b
              else if y ws - radius b < y (pos b) then y ws - radius b else y (pos b))"
    and "y (vel (handleWallsCollision b ws))
           = (if y (pos b) < radius b \<or> y ws - radius b < y (pos b)
              then - y (vel b) else y (vel b))"
  using assms by (simp_all add: handleWallsCollision_def Let_def)

lemma World_handleWallCollision_x:
  assumes "0 \<le> x (size_w w)"
  shows "x (pos (World_handleWallCollision w b))
           = (if x (size_w w) < x (pos b) then x (size_w w)
              else if x (pos b) < 0 then 0 else x (pos b))"
    and "x (vel (World_handleWallCollision w b))
           = (if x (size_w w) < x (pos b) \<or> x (pos b) < 0 then - x (vel b) else x (vel b))"
  using assms by (simp_all add: World_handleWallCollision_def Let_def)

lemma World_handleWallCollision_y:
  assumes "0 \<le> y (size_w w)"
  shows "y (pos (World_handleWallCollision w b))
           = (if y (pos b) < 0 then 0
              else if y (size_w w) < y (pos b) then y (size_w w) else y (pos b))"
    and "y (vel (World_handleWallCollision w b))
           = (if y (pos b) < 0 \<or> y (size_w w) < y (pos b) then - y (vel b) else y (vel b))"
  using assms by (simp_all add: World_handleWallCollision_def Let_def)

lemma Renderer_handleWallCollision_x:
  assumes "2 * radius b \<le> cw / scale_r"
  shows "x (pos (Renderer_handleWallCollision cw ch b))
           = (if cw / scale_r < x (pos b) + radius b then cw / scale_r - radius b
              else if x (pos b) - radius b < 0 then radius b else x (pos b))"
    and "x (vel (Renderer_handleWallCollision cw ch b))
           = (if cw / scale_r < x (pos b) + radius b \<or> x (pos b) - radius b < 0
              then - x (vel b) * (9 / 10) else x (vel b))"
  using assms by (simp_all add: Renderer_handleWallCollision_def Let_def)

lemma Renderer_handleWallCollision_y:
  assumes "2 * radius b \<le> ch / scale_r"
  shows "y (pos (Renderer_handleWallCollision cw ch b))
           = (if ch / scale_r < y (pos b) + radius b then ch / scale_r - radius b
              else if y (pos b) - radius b < 0 then radius b else y (pos b))"
    and "y (vel (Renderer_handleWallCollision cw ch b))
           = (if ch / scale_r < y (pos b) + radius b \<or> y (pos b) - radius b < 0
              then - y (vel b) * (9 / 10) else y (vel b))"
  using assms by (simp_all add: Renderer_handleWallCollision_def Let_def)



text \<open>
  In a world narrower than the ball both opposite checks fire: the ball ends a radius
  inside the right wall and its velocity is negated twice.
\<close>

lemma handleWallsCollision_narrow_world:
  "x (pos (handleWallsCollision
       \<lparr>radius = 1, mass = pi, pos = \<lparr>x = 0, y = 5\<rparr>, vel = \<lparr>x = 2, y = 0\<rparr>\<rparr>
       \<lparr>x = 1, y = 10\<rparr>)) = 0
   \<and> x (vel (handleWallsCollision
       \<lparr>radius = 1, mass = pi, pos = \<lparr>x = 0, y = 5\<rparr>, vel = \<lparr>x = 2, y = 0\<rparr>\<rparr>
       \<lparr>x = 1, y = 10\<rparr>)) = 2"
  by (simp add: handleWallsCollision_def)

section \<open>Momentum along the contact normal\<close>

text \<open>
  Claim C1. For every pair of balls that \<open>handleBallsCollision\<close> changes (the centres
  are apart and no further apart than the sum of the radii), with restitution 1, the
  momentum along the contact normal is conserved: \<open>m1 * v1 + m2 * v2\<close> before the call
  equals \<open>m1 * newV1 + m2 * newV2\<close> for the speeds the resolver computes, and equals
  the same sum taken over the velocities the call leaves in the two balls. The numbers
  are real numbers, the exact reading of the claim; the masses are assumed not to
  cancel, which \<open>disc_mass_sum_pos\<close> gives for every ball whose mass is the area of
  its disc.
\<close>

theorem momentum_conserved_along_normal:
  assumes "colliding b1 b2" and "mass b1 + mass b2 \<noteq> 0"
  shows "mass b1 * newV1 (mass b1) (mass b2) (dot (vel b1) (normal b1 b2))
                     (dot (vel b2) (normal b1 b2)) 1
         + mass b2 * newV2 (mass b1) (mass b2) (dot (vel b1) (normal b1 b2))
                       (dot (vel b2) (normal b1 b2)) 1
         = mass b1 * dot (vel b1) (normal b1 b2) + mass b2 * dot (vel b2) (normal b1 b2)
       \<and> mass b1 * dot (vel (fst (handleBallsCollision b1 b2 1))) (normal b1 b2)
         + mass b2 * dot (vel (snd (handleBallsCollision b1 b2 1))) (normal b1 b2)
         = mass b1 * dot (vel b1) (normal b1 b2) + mass b2 * dot (vel b2) (normal b1 b2)"
proof -
  have d: "distance b1 b2 \<noteq> 0"
    using assms(1) by (simp add: colliding_def)
  have f: "mass b1 * newV1 (mass b1) (mass b2) v1 v2 1
         + mass b2 * newV2 (mass b1) (mass b2) v1 v2 1 = mass b1 * v1 + mass b2 * v2" for v1 v2
    using assms(2) by (rule momentum_formula)
  show ?thesis
    by (simp add: handleBallsCollision_colliding [OF assms(1)] dot_add_normal [OF d] f)
qed

theorem momentum_conserved_along_normal_witness:
  "colliding first_ball second_ball
   \<and> mass first_ball + mass second_ball \<noteq> 0
   \<and> normal first_ball second_ball = \<lparr>x = 1, y = 0\<rparr>
   \<and> mass first_ball * dot (vel first_ball) (normal first_ball second_ball)
     + mass second_ball * dot (vel second_ball) (normal first_ball second_ball) = 6
   \<and> mass first_ball
       * dot (vel (fst (handleBallsCollision first_ball second_ball 1)))
           (normal first_ball second_ball)
     + mass second_ball
       * dot (vel (snd (handleBallsCollision first_ball second_ball 1)))
           (normal first_ball second_ball) = 6"
proof -
  have d: "distance first_ball second_ball = 3 / 2"
    by (simp add: distance_same_height)
  have c: "colliding first_ball second_ball"
    by (simp add: colliding_def d)
  have m: "mass first_ball + mass second_ball \<noteq> 0"
    by simp
  have n: "normal first_ball second_ball = \<lparr>x = 1, y = 0\<rparr>"
    by (simp add: normal_def d scale_def subtractVectors_def)
  have before: "mass first_ball * dot (vel first_ball) (normal first_ball second_ball)
     + mass second_ball * dot (vel second_ball) (normal first_ball second_ball) = 6"
    by (simp add: n dot_def)
  show ?thesis
    using momentum_conserved_along_normal [OF c m] c n before by simp
qed

section \<open>Positional correction\<close>

text \<open>
  Claim C6. For every pair of balls whose centres are a nonzero distance \<open>d\<close> apart
  with \<open>d < r1 + r2\<close>, \<open>handleBallsCollision\<close> moves the first ball by \<open>- corr\<close> and
  the second by \<open>+ corr\<close> along the unit direction from the first centre to the second,
  where \<open>corr = (r1 + r2 - d) / 2\<close>, whatever the masses and the restitution; after the
  call the centres are exactly \<open>r1 + r2\<close> apart.
\<close>

theorem overlap_split_equally:
  assumes "distance b1 b2 \<noteq> 0" and "distance b1 b2 < radius b1 + radius b2"
  shows "pos (fst (handleBallsCollision b1 b2 e))
           = add (pos b1) (normal b1 b2) (- ((radius b1 + radius b2 - distance b1 b2) / 2))
       \<and> pos (snd (handleBallsCollision b1 b2 e))
           = add (pos b2) (normal b1 b2) ((radius b1 + radius b2 - distance b1 b2) / 2)
       \<and> length_v (normal b1 b2) = 1
       \<and> distance (fst (handleBallsCollision b1 b2 e)) (snd (handleBallsCollision b1 b2 e))
           = radius b1 + radius b2"
proof -
  have c: "colliding b1 b2"
    using assms by (simp add: colliding_def)
  have le: "distance b1 b2 \<le> radius b1 + radius b2"
    using assms(2) by simp
  have "distance (fst (handleBallsCollision b1 b2 e)) (snd (handleBallsCollision b1 b2 e))
          = radius b1 + radius b2"
    using separated_centres [OF assms(1) le]
    by (simp add: handleBallsCollision_colliding [OF c]
        distance_def [of "_\<lparr>pos := _, vel := _\<rparr>"])
  then show ?thesis
    by (simp add: handleBallsCollision_colliding [OF c] length_normal [OF assms(1)])
qed

theorem overlap_split_equally_witness:
  "distance first_ball second_ball \<noteq> 0
   \<and> distance first_ball second_ball < radius first_ball + radius second_ball
   \<and> pos (fst (handleBallsCollision first_ball second_ball 1)) = \<lparr>x = - 1 / 4, y = 0\<rparr>
   \<and> pos (snd (handleBallsCollision first_ball second_ball 1)) = \<lparr>x = 7 / 4, y = 0\<rparr>
   \<and> distance (fst (handleBallsCollision first_ball second_ball 1))
       (snd (handleBallsCollision first_ball second_ball 1)) = 2"
proof -
  have d: "distance first_ball second_ball = 3 / 2"
    by (simp add: distance_same_height)
  have nz: "distance first_ball second_ball \<noteq> 0"
    and lt: "distance first_ball second_ball < radius first_ball + radius second_ball"
    by (simp_all add: d)
  have n: "normal first_ball second_ball = \<lparr>x = 1, y = 0\<rparr>"
    by (simp add: normal_def d scale_def subtractVectors_def)
  show ?thesis
    using overlap_split_equally [OF nz lt, of 1] nz lt by (simp add: n d add_def)
qed

section \<open>Kinetic energy along the contact normal\<close>

text \<open>
  Claim C7. For every pair of colliding balls of positive mass and every restitution
  coefficient between 0 and 1, the kinetic energy of the normal velocity components
  after the velocity update, \<open>1/2 * m1 * newV1\<^sup>2 + 1/2 * m2 * newV2\<^sup>2\<close>, is at most
  the one before, \<open>1/2 * m1 * v1\<^sup>2 + 1/2 * m2 * v2\<^sup>2\<close>; the same holds for the normal
  components of the velocities the call leaves in the two balls.
\<close>

theorem normal_energy_not_increased:
  assumes "colliding b1 b2" and "0 < mass b1" and "0 < mass b2"
      and "0 \<le> e" and "e \<le> 1"
  shows "kinetic (mass b1) (newV1 (mass b1) (mass b2) (dot (vel b1) (normal b1 b2))
                              (dot (vel b2) (normal b1 b2)) e)
                 (mass b2) (newV2 (mass b1) (mass b2) (dot (vel b1) (normal b1 b2))
                              (dot (vel b2) (normal b1 b2)) e)
         \<le> kinetic (mass b1) (dot (vel b1) (normal b1 b2))
                    (mass b2) (dot (vel b2) (normal b1 b2))
       \<and> kinetic (mass b1) (dot (vel (fst (handleBallsCollision b1 b2 e))) (normal b1 b2))
                 (mass b2) (dot (vel (snd (handleBallsCollision b1 b2 e))) (normal b1 b2))
         \<le> kinetic (mass b1) (dot (vel b1) (normal b1 b2))
                    (mass b2) (dot (vel b2) (normal b1 b2))"
proof -
  have d: "distance b1 b2 \<noteq> 0"
    using assms(1) by (simp add: colliding_def)
  have f: "kinetic (mass b1) (newV1 (mass b1) (mass b2) v1 v2 e)
                   (mass b2) (newV2 (mass b1) (mass b2) v1 v2 e)
           \<le> kinetic (mass b1) v1 (mass b2) v2" for v1 v2
    using assms(2-5) by (rule energy_formula)
  show ?thesis
    by (simp add: handleBallsCollision_colliding [OF assms(1)] dot_add_normal [OF d] f)
qed

theorem normal_energy_not_increased_witness:
  "colliding first_ball second_ball \<and> 0 < mass first_ball \<and> 0 < mass second_ball
   \<and> (0::real) \<le> 1 / 2 \<and> (1::real) / 2 \<le> 1
   \<and> kinetic (mass first_ball) (dot (vel first_ball) (normal first_ball second_ball))
              (mass second_ball) (dot (vel second_ball) (normal first_ball second_ball)) = 9
   \<and> kinetic (mass first_ball)
              (dot (vel (fst (handleBallsCollision first_ball second_ball (1 / 2))))
                 (normal first_ball second_ball))
              (mass second_ball)
              (dot (vel (snd (handleBallsCollision first_ball second_ball (1 / 2))))
                 (normal first_ball second_ball))
       \<le> 9"
proof -
  have d: "distance first_ball second_ball = 3 / 2"
    by (simp add: distance_same_height)
  have c: "colliding first_ball second_ball"
    by (simp add: colliding_def d)
  have m1: "0 < mass first_ball" and m2: "0 < mass second_ball"
    by simp_all
  have e0: "(0::real) \<le> 1 / 2" and e1: "(1::real) / 2 \<le> 1"
    by simp_all
  have n: "normal first_ball second_ball = \<lparr>x = 1, y = 0\<rparr>"
    by (simp add: normal_def d scale_def subtractVectors_def)
  have before: "kinetic (mass first_ball) (dot (vel first_ball) (normal first_ball second_ball))
                        (mass second_ball) (dot (vel second_ball) (normal first_ball second_ball)) = 9"
    by (simp add: n dot_def kinetic_def)
  show ?thesis
    using normal_energy_not_increased [OF c m1 m2 e0 e1] c before by simp
qed

section \<open>Integration order\<close>

text \<open>
  Claim C2. The integrator updates the velocity before the position: for every ball,
  every gravity and every positive \<open>dt\<close>, one step leaves the velocity at the old
  velocity plus \<open>gravity * dt\<close> and the position at the old position plus the new
  velocity times \<open>dt\<close>. This holds for \<open>Ball.simulate\<close> and for \<open>Core.simulate\<close> of
  the single-ball demo: what \<open>Core.simulate\<close> hands to its wall handler is the ball
  integrated in that order, and it is the result of the whole step whenever the
  integrated centre lies inside the world. The witness is the ball at rest under gravity
  \<open>(0, -9.81)\<close> with \<open>dt = 1\<close>: it ends with velocity \<open>(0, -9.81)\<close> and its height
  lowered by 9.81, where the old velocity would have left it in place.
\<close>

theorem integrator_velocity_before_position:
  "0 < dt \<Longrightarrow>
     vel (simulate dt g b) = \<lparr>x = x (vel b) + x g * dt, y = y (vel b) + y g * dt\<rparr>
   \<and> pos (simulate dt g b)
       = \<lparr>x = x (pos b) + (x (vel b) + x g * dt) * dt,
          y = y (pos b) + (y (vel b) + y g * dt) * dt\<rparr>
   \<and> vx0 (move dt (applyGravity gx gy dt b0)) = vx0 b0 + gx * dt
   \<and> vy0 (move dt (applyGravity gx gy dt b0)) = vy0 b0 + gy * dt
   \<and> x0 (move dt (applyGravity gx gy dt b0)) = x0 b0 + (vx0 b0 + gx * dt) * dt
   \<and> y0 (move dt (applyGravity gx gy dt b0)) = y0 b0 + (vy0 b0 + gy * dt) * dt
   \<and> simulate0 gx gy dt simWidth b0
       = handleCollision simWidth
           (b0\<lparr>vx0 := vx0 b0 + gx * dt, vy0 := vy0 b0 + gy * dt,
               x0 := x0 b0 + (vx0 b0 + gx * dt) * dt,
               y0 := y0 b0 + (vy0 b0 + gy * dt) * dt\<rparr>)
   \<and> (0 \<le> x0 b0 + (vx0 b0 + gx * dt) * dt
        \<and> x0 b0 + (vx0 b0 + gx * dt) * dt \<le> simWidth
        \<and> 0 \<le> y0 b0 + (vy0 b0 + gy * dt) * dt \<longrightarrow>
          simulate0 gx gy dt simWidth b0
            = b0\<lparr>vx0 := vx0 b0 + gx * dt, vy0 := vy0 b0 + gy * dt,
                 x0 := x0 b0 + (vx0 b0 + gx * dt) * dt,
                 y0 := y0 b0 + (vy0 b0 + gy * dt) * dt\<rparr>)"
  by (simp add: simulate_def add_def simulate0_def move_def applyGravity_def
      handleCollision_def)

theorem integrator_velocity_before_position_witness:
  "(0::real) < 1
   \<and> vel (simulate 1 \<lparr>x = 0, y = - 981 / 100\<rparr>
            \<lparr>radius = 1 / 2, mass = 1, pos = \<lparr>x = 2, y = 50\<rparr>, vel = \<lparr>x = 0, y = 0\<rparr>\<rparr>)
       = \<lparr>x = 0, y = - 981 / 100\<rparr>
   \<and> pos (simulate 1 \<lparr>x = 0, y = - 981 / 100\<rparr>
            \<lparr>radius = 1 / 2, mass = 1, pos = \<lparr>x = 2, y = 50\<rparr>, vel = \<lparr>x = 0, y = 0\<rparr>\<rparr>)
       = \<lparr>x = 2, y = 4019 / 100\<rparr>
   \<and> vy0 (move 1 (applyGravity 0 (- 981 / 100) 1
            \<lparr>radius0 = 1 / 2, x0 = 2, y0 = 50, vx0 = 0, vy0 = 0\<rparr>)) = - 981 / 100
   \<and> y0 (move 1 (applyGravity 0 (- 981 / 100) 1
            \<lparr>radius0 = 1 / 2, x0 = 2, y0 = 50, vx0 = 0, vy0 = 0\<rparr>)) = 4019 / 100
   \<and> simulate0 0 (- 981 / 100) 1 20 \<lparr>radius0 = 1 / 2, x0 = 2, y0 = 50, vx0 = 0, vy0 = 0\<rparr>
       = \<lparr>radius0 = 1 / 2, x0 = 2, y0 = 4019 / 100, vx0 = 0, vy0 = - 981 / 100\<rparr>"
  using integrator_velocity_before_position
    [of 1 "\<lparr>x = 0, y = - 981 / 100\<rparr>"
        "\<lparr>radius = 1 / 2, mass = 1, pos = \<lparr>x = 2, y = 50\<rparr>, vel = \<lparr>x = 0, y = 0\<rparr>\<rparr>"
        0 "- 981 / 100" "\<lparr>radius0 = 1 / 2, x0 = 2, y0 = 50, vx0 = 0, vy0 = 0\<rparr>" 20]
  by (simp add: handleCollision_def)

section \<open>The charge curve\<close>

text \<open>
  Claim C3 says that power and draw-back offset reach exactly \<open>MAX_POWER = 100\<close> and
  \<open>MAX_SHIFT = 30\<close> once the elapsed time is at least the charge duration. The curve
  \<open>max - (max - min) * exp (- 3 * t)\<close> is evaluated at \<open>t = 1\<close> from then on, which is
  short of \<open>max\<close> by \<open>(max - min) * exp (- 3)\<close>: a cue charged for 2000 ms has neither
  power 100 nor offset 30.
\<close>

theorem charge_saturation_counterexample:
  "isCharging (startCharge 0 Cue_new)
   \<and> CHARGE_TIME \<le> 2000 - startChargeTime (startCharge 0 Cue_new)
   \<and> power_c (updateCharge 2000 (startCharge 0 Cue_new)) \<noteq> MAX_POWER
   \<and> shift (updateCharge 2000 (startCharge 0 Cue_new)) \<noteq> MAX_SHIFT"
  by (simp add: updateCharge_def startCharge_def Cue_new_def getCurveValue_def Let_def
      K_def CHARGE_TIME_def MAX_POWER_def MIN_POWER_def MAX_SHIFT_def MIN_SHIFT_def)

text \<open>
  Claim C3, amended. Two updates of a charging cue at times \<open>t1 \<le> t2\<close> give
  non-decreasing power and draw-back offset, each computed as
  \<open>max - (max - min) * exp (- 3 * min (elapsed / 2000) 1)\<close> over the ranges
  \<open>[10, 100]\<close> and \<open>[0, 30]\<close>. Once the elapsed time is at least 2000 ms both stay
  constant, at \<open>100 - 90 * exp (- 3)\<close> and \<open>30 - 30 * exp (- 3)\<close>; the power is always
  below \<open>MAX_POWER\<close> and the offset always below \<open>MAX_SHIFT\<close>.
\<close>

theorem charge_curve_monotone_and_saturating:
  assumes "isCharging c" and "t1 \<le> t2"
  shows "power_c (updateCharge t1 c) \<le> power_c (updateCharge t2 (updateCharge t1 c))
       \<and> shift (updateCharge t1 c) \<le> shift (updateCharge t2 (updateCharge t1 c))
       \<and> (CHARGE_TIME \<le> t1 - startChargeTime c \<longrightarrow>
            power_c (updateCharge t1 c) = 100 - 90 * exp (- 3)
          \<and> power_c (updateCharge t2 (updateCharge t1 c)) = 100 - 90 * exp (- 3)
          \<and> shift (updateCharge t1 c) = 30 - 30 * exp (- 3)
          \<and> shift (updateCharge t2 (updateCharge t1 c)) = 30 - 30 * exp (- 3))
       \<and> power_c (updateCharge t1 c)
           = 100 - 90 * exp (- 3 * min ((t1 - startChargeTime c) / 2000) 1)
       \<and> shift (updateCharge t1 c)
           = 30 - 30 * exp (- 3 * min ((t1 - startChargeTime c) / 2000) 1)
       \<and> power_c (updateCharge t1 c) < MAX_POWER
       \<and> shift (updateCharge t1 c) < MAX_SHIFT"
proof -
  let ?n1 = "min ((t1 - startChargeTime c) / CHARGE_TIME) 1"
  let ?n2 = "min ((t2 - startChargeTime c) / CHARGE_TIME) 1"
  have n: "?n1 \<le> ?n2"
    using assms(2) by (rule normalizedTime_mono)
  have p: "getCurveValue MAX_POWER MIN_POWER ?n1 \<le> getCurveValue MAX_POWER MIN_POWER ?n2"
    by (rule getCurveValue_mono [OF _ n]) (simp add: MAX_POWER_def MIN_POWER_def)
  have s: "getCurveValue MAX_SHIFT MIN_SHIFT ?n1 \<le> getCurveValue MAX_SHIFT MIN_SHIFT ?n2"
    by (rule getCurveValue_mono [OF _ n]) (simp add: MAX_SHIFT_def MIN_SHIFT_def)
  have sat: "getCurveValue MAX_POWER MIN_POWER ?n1 = 100 - 90 * exp (- 3)
           \<and> getCurveValue MAX_POWER MIN_POWER ?n2 = 100 - 90 * exp (- 3)
           \<and> getCurveValue MAX_SHIFT MIN_SHIFT ?n1 = 30 - 30 * exp (- 3)
           \<and> getCurveValue MAX_SHIFT MIN_SHIFT ?n2 = 30 - 30 * exp (- 3)"
    if "CHARGE_TIME \<le> t1 - startChargeTime c"
  proof -
    have "?n1 = 1" using that by (simp add: CHARGE_TIME_def min_def)
    moreover have "?n2 = 1" using that assms(2) by (simp add: CHARGE_TIME_def min_def)
    ultimately show ?thesis
      by (simp add: getCurveValue_def K_def MAX_POWER_def MIN_POWER_def
          MAX_SHIFT_def MIN_SHIFT_def)
  qed
  have below: "getCurveValue MAX_POWER MIN_POWER ?n1 < MAX_POWER
             \<and> getCurveValue MAX_SHIFT MIN_SHIFT ?n1 < MAX_SHIFT"
    by (simp add: getCurveValue_def MAX_POWER_def MIN_POWER_def MAX_SHIFT_def MIN_SHIFT_def)
  have formula: "getCurveValue MAX_POWER MIN_POWER ?n1
                   = 100 - 90 * exp (- 3 * min ((t1 - startChargeTime c) / 2000) 1)
               \<and> getCurveValue MAX_SHIFT MIN_SHIFT ?n1
                   = 30 - 30 * exp (- 3 * min ((t1 - startChargeTime c) / 2000) 1)"
    by (simp add: getCurveValue_def K_def CHARGE_TIME_def MAX_POWER_def MIN_POWER_def
        MAX_SHIFT_def MIN_SHIFT_def)
  have "power_c (updateCharge t1 c) \<le> power_c (updateCharge t2 c)
      \<and> shift (updateCharge t1 c) \<le> shift (updateCharge t2 c)"
    using p s by (simp add: updateCharge_charging [OF assms(1)])
  moreover have "CHARGE_TIME \<le> t1 - startChargeTime c \<longrightarrow>
            power_c (updateCharge t1 c) = 100 - 90 * exp (- 3)
          \<and> power_c (updateCharge t2 c) = 100 - 90 * exp (- 3)
          \<and> shift (updateCharge t1 c) = 30 - 30 * exp (- 3)
          \<and> shift (updateCharge t2 c) = 30 - 30 * exp (- 3)"
    using sat by (simp add: updateCharge_charging [OF assms(1)])
  moreover have "power_c (updateCharge t1 c)
           = 100 - 90 * exp (- 3 * min ((t1 - startChargeTime c) / 2000) 1)
       \<and> shift (updateCharge t1 c)
           = 30 - 30 * exp (- 3 * min ((t1 - startChargeTime c) / 2000) 1)"
    using formula by (simp add: updateCharge_charging [OF assms(1)])
  moreover have "power_c (updateCharge t1 c) < MAX_POWER
      \<and> shift (updateCharge t1 c) < MAX_SHIFT"
    using below by (simp add: updateCharge_charging [OF assms(1)])
  ultimately show ?thesis
    unfolding updateCharge_twice [OF assms(1)] by blast
qed

theorem charge_curve_monotone_and_saturating_witness:
  "isCharging (startCharge 0 Cue_new) \<and> (500::real) \<le> 1000 \<and> (2000::real) \<le> 3000
   \<and> CHARGE_TIME \<le> 2000 - startChargeTime (startCharge 0 Cue_new)
   \<and> power_c (updateCharge 500 (startCharge 0 Cue_new))
       \<le> power_c (updateCharge 1000 (updateCharge 500 (startCharge 0 Cue_new)))
   \<and> shift (updateCharge 500 (startCharge 0 Cue_new))
       \<le> shift (updateCharge 1000 (updateCharge 500 (startCharge 0 Cue_new)))
   \<and> power_c (updateCharge 2000 (startCharge 0 Cue_new)) = 100 - 90 * exp (- 3)
   \<and> power_c (updateCharge 3000 (updateCharge 2000 (startCharge 0 Cue_new)))
       = 100 - 90 * exp (- 3)
   \<and> shift (updateCharge 2000 (startCharge 0 Cue_new)) = 30 - 30 * exp (- 3)
   \<and> shift (updateCharge 3000 (updateCharge 2000 (startCharge 0 Cue_new)))
       = 30 - 30 * exp (- 3)
   \<and> power_c (updateCharge 2000 (startCharge 0 Cue_new)) < MAX_POWER
   \<and> shift (updateCharge 2000 (startCharge 0 Cue_new)) < MAX_SHIFT"
proof -
  have c: "isCharging (startCharge 0 Cue_new)"
    by (simp add: startCharge_def)
  have t: "(500::real) \<le> 1000" and t': "(2000::real) \<le> 3000"
    by simp_all
  have e: "CHARGE_TIME \<le> 2000 - startChargeTime (startCharge 0 Cue_new)"
    by (simp add: startCharge_def CHARGE_TIME_def)
  show ?thesis
    using charge_curve_monotone_and_saturating [OF c t]
      charge_curve_monotone_and_saturating [OF c t'] c e
    by simp
qed

section \<open>Clamping at the walls\<close>

text \<open>
  Claim C4 says that every boundary resolver puts a ball whose edge crosses a wall a
  radius inside that wall, so that the ball at \<open>(-0.1, 5)\<close> with radius 0.5 ends at
  \<open>x = 0.5\<close>. \<open>World.handleWallCollision\<close> of the cue demo tests and clamps the centre
  and never reads the radius: it puts that ball on the wall, at \<open>x = 0\<close>.
\<close>

theorem wall_clamp_counterexample:
  "x (pos (ball_past_left_wall (- 2))) - radius (ball_past_left_wall (- 2)) < 0
   \<and> x (pos (World_handleWallCollision world_10 (ball_past_left_wall (- 2)))) = 0
   \<and> x (pos (World_handleWallCollision world_10 (ball_past_left_wall (- 2)))) \<noteq> 1 / 2"
  by (simp add: World_handleWallCollision_def)

text \<open>
  Claim C4, amended. For a ball in a world at least a diameter wide and high,
  \<open>Core.handleWallsCollision\<close> (\<open>ch-03/index.js\<close>) and \<open>Renderer.handleWallCollision\<close>
  (\<open>index3.js\<close>) put a ball whose edge \<open>position \<plusminus> radius\<close> is past a wall exactly a
  radius inside that wall and negate the matching velocity component, the first with no
  further factor and the second multiplied by 0.9. \<open>World.handleWallCollision\<close> of the
  cue demo, for a world with sides that are not negative, acts on the centre: a ball whose
  centre is past a wall is put on the wall itself and the matching velocity component is
  negated. The witness is the ball at \<open>(-0.1, 5)\<close> with radius 0.5 in a world of width
  10: it ends at \<open>x = 0.5\<close> under the first two and at \<open>x = 0\<close> under the third, with
  \<open>velocity.x\<close> of the opposite sign under all three.
\<close>

theorem wall_clamp_and_reflect:
  assumes "2 * radius b \<le> x ws" and "2 * radius b \<le> y ws"
      and "0 \<le> x (size_w w)" and "0 \<le> y (size_w w)"
      and "2 * radius b \<le> cw / scale_r" and "2 * radius b \<le> ch / scale_r"
  shows "(x (pos b) - radius b < 0 \<longrightarrow>
            x (pos (handleWallsCollision b ws)) = radius b
          \<and> x (vel (handleWallsCollision b ws)) = - x (vel b)
          \<and> x (pos (Renderer_handleWallCollision cw ch b)) = radius b
          \<and> x (vel (Renderer_handleWallCollision cw ch b)) = - x (vel b) * (9 / 10))
       \<and> (x ws < x (pos b) + radius b \<longrightarrow>
            x (pos (handleWallsCollision b ws)) = x ws - radius b
          \<and> x (vel (handleWallsCollision b ws)) = - x (vel b))
       \<and> (cw / scale_r < x (pos b) + radius b \<longrightarrow>
            x (pos (Renderer_handleWallCollision cw ch b)) = cw / scale_r - radius b
          \<and> x (vel (Renderer_handleWallCollision cw ch b)) = - x (vel b) * (9 / 10))
       \<and> (y (pos b) - radius b < 0 \<longrightarrow>
            y (pos (handleWallsCollision b ws)) = radius b
          \<and> y (vel (handleWallsCollision b ws)) = - y (vel b)
          \<and> y (pos (Renderer_handleWallCollision cw ch b)) = radius b
          \<and> y (vel (Renderer_handleWallCollision cw ch b)) = - y (vel b) * (9 / 10))
       \<and> (y ws < y (pos b) + radius b \<longrightarrow>
            y (pos (handleWallsCollision b ws)) = y ws - radius b
          \<and> y (vel (handleWallsCollision b ws)) = - y (vel b))
       \<and> (ch / scale_r < y (pos b) + radius b \<longrightarrow>
            y (pos (Renderer_handleWallCollision cw ch b)) = ch / scale_r - radius b
          \<and> y (vel (Renderer_handleWallCollision cw ch b)) = - y (vel b) * (9 / 10))
       \<and> (x (pos b) < 0 \<longrightarrow>
            x (pos (World_handleWallCollision w b)) = 0
          \<and> x (vel (World_handleWallCollision w b)) = - x (vel b))
       \<and> (x (size_w w) < x (pos b) \<longrightarrow>
            x (pos (World_handleWallCollision w b)) = x (size_w w)
          \<and> x (vel (World_handleWallCollision w b)) = - x (vel b))
       \<and> (y (pos b) < 0 \<longrightarrow>
            y (pos (World_handleWallCollision w b)) = 0
          \<and> y (vel (World_handleWallCollision w b)) = - y (vel b))
       \<and> (y (size_w w) < y (pos b) \<longrightarrow>
            y (pos (World_handleWallCollision w b)) = y (size_w w)
          \<and> y (vel (World_handleWallCollision w b)) = - y (vel b))"
proof -
  have cx: "\<not> cw / scale_r < x (pos b) + radius b" if "x (pos b) - radius b < 0"
    using that assms(5) by simp
  have cy: "\<not> ch / scale_r < y (pos b) + radius b" if "y (pos b) - radius b < 0"
    using that assms(6) by simp
  have wx: "\<not> x (size_w w) < x (pos b)" if "x (pos b) < 0"
    using that assms(3) by simp
  have wy: "\<not> y (size_w w) < y (pos b)" if "y (pos b) < 0"
    using that assms(4) by simp
  have lx: "\<not> x (pos b) < radius b" if "x ws < x (pos b) + radius b"
    using that assms(1) by simp
  have ly: "\<not> y (pos b) < radius b" if "y ws < y (pos b) + radius b"
    using that assms(2) by simp
  have ux: "x ws - radius b < x (pos b)" if "x ws < x (pos b) + radius b"
    using that by simp
  have uy: "y ws - radius b < y (pos b)" if "y ws < y (pos b) + radius b"
    using that by simp
  show ?thesis
    by (simp add: handleWallsCollision_x [OF assms(1)] handleWallsCollision_y [OF assms(2)]
        World_handleWallCollision_x [OF assms(3)] World_handleWallCollision_y [OF assms(4)]
        Renderer_handleWallCollision_x [OF assms(5)] Renderer_handleWallCollision_y [OF assms(6)]
        cx cy wx wy lx ly ux uy)
qed

theorem wall_clamp_and_reflect_witness:
  "2 * radius (ball_past_left_wall (- 2)) \<le> x worldSize_10
   \<and> 2 * radius (ball_past_left_wall (- 2)) \<le> y worldSize_10
   \<and> 0 \<le> x (size_w world_10) \<and> 0 \<le> y (size_w world_10)
   \<and> 2 * radius (ball_past_left_wall (- 2)) \<le> 200 / scale_r
   \<and> x (pos (ball_past_left_wall (- 2))) - radius (ball_past_left_wall (- 2)) < 0
   \<and> x (pos (ball_past_left_wall (- 2))) < 0
   \<and> x (pos (handleWallsCollision (ball_past_left_wall (- 2)) worldSize_10)) = 1 / 2
   \<and> x (vel (handleWallsCollision (ball_past_left_wall (- 2)) worldSize_10)) = 2
   \<and> x (pos (Renderer_handleWallCollision 200 200 (ball_past_left_wall (- 2)))) = 1 / 2
   \<and> x (vel (Renderer_handleWallCollision 200 200 (ball_past_left_wall (- 2)))) = 9 / 5
   \<and> x (pos (World_handleWallCollision world_10 (ball_past_left_wall (- 2)))) = 0
   \<and> x (vel (World_handleWallCollision world_10 (ball_past_left_wall (- 2)))) = 2"
proof -
  have h1: "2 * radius (ball_past_left_wall (- 2)) \<le> x worldSize_10"
    and h2: "2 * radius (ball_past_left_wall (- 2)) \<le> y worldSize_10"
    and h3: "0 \<le> x (size_w world_10)" and h4: "0 \<le> y (size_w world_10)"
    and h5: "2 * radius (ball_past_left_wall (- 2)) \<le> 200 / scale_r"
    by (simp_all add: scale_r_def)
  show ?thesis
    using wall_clamp_and_reflect [OF h1 h2 h3 h4 h5 h5] h1 h2 h3 h4 h5 by simp
qed

section \<open>Two balls of unit mass, head on\<close>

text \<open>
  Claim C5 says that two balls of radius \<open>1 / sqrt pi\<close> (mass 1) at \<open>(0, 0)\<close> and
  \<open>(1.5, 0)\<close> with velocities \<open>(1, 0)\<close> and \<open>(0, 0)\<close> swap their velocities in one
  call with restitution 1. Their centres are 1.5 apart and their radii add up to
  \<open>2 / sqrt pi < 1.5\<close>: the guard returns and both balls keep their velocities.
\<close>

theorem head_on_apart_counterexample:
  "disc_mass (1 / sqrt pi) = 1
   \<and> handleBallsCollision (unit_ball 0 1) (unit_ball (3 / 2) 0) 1
       = (unit_ball 0 1, unit_ball (3 / 2) 0)
   \<and> vel (fst (handleBallsCollision (unit_ball 0 1) (unit_ball (3 / 2) 0) 1)) = \<lparr>x = 1, y = 0\<rparr>
   \<and> vel (snd (handleBallsCollision (unit_ball 0 1) (unit_ball (3 / 2) 0) 1)) = \<lparr>x = 0, y = 0\<rparr>
   \<and> vel (fst (handleBallsCollision (unit_ball 0 1) (unit_ball (3 / 2) 0) 1)) \<noteq> \<lparr>x = 0, y = 0\<rparr>
   \<and> vel (snd (handleBallsCollision (unit_ball 0 1) (unit_ball (3 / 2) 0) 1)) \<noteq> \<lparr>x = 1, y = 0\<rparr>"
proof -
  have d: "distance (unit_ball 0 1) (unit_ball (3 / 2) 0) = 3 / 2"
    by (simp add: distance_same_height Ball_new_def)
  have "radius (unit_ball 0 1) + radius (unit_ball (3 / 2) 0) = 2 / sqrt pi"
    by (simp add: Ball_new_def)
  then have "\<not> colliding (unit_ball 0 1) (unit_ball (3 / 2) 0)"
    using two_unit_radii_bounds by (simp add: colliding_def d)
  then have "handleBallsCollision (unit_ball 0 1) (unit_ball (3 / 2) 0) 1
               = (unit_ball 0 1, unit_ball (3 / 2) 0)"
    by (rule handleBallsCollision_apart)
  then show ?thesis
    by (simp add: disc_mass_unit Ball_new_def)
qed

text \<open>
  Claim C5, amended. Two balls of radius \<open>1 / sqrt pi\<close> (mass 1) at \<open>(0, 0)\<close> and
  \<open>(d, 0)\<close> with \<open>d > 0\<close> and velocities \<open>(1, 0)\<close> and \<open>(0, 0)\<close>: when they touch or
  overlap, \<open>d \<le> 2 / sqrt pi\<close>, one call with restitution 1 leaves them with the
  velocities \<open>(0, 0)\<close> and \<open>(1, 0)\<close>; when they are further apart, as at \<open>d = 1.5\<close>,
  the call changes nothing.
\<close>

theorem head_on_equal_mass_swap:
  assumes "0 < d"
  shows "(d \<le> 2 / sqrt pi \<longrightarrow>
            vel (fst (handleBallsCollision (unit_ball 0 1) (unit_ball d 0) 1)) = \<lparr>x = 0, y = 0\<rparr>
          \<and> vel (snd (handleBallsCollision (unit_ball 0 1) (unit_ball d 0) 1)) = \<lparr>x = 1, y = 0\<rparr>)
       \<and> (2 / sqrt pi < d \<longrightarrow>
            handleBallsCollision (unit_ball 0 1) (unit_ball d 0) 1
              = (unit_ball 0 1, unit_ball d 0))"
proof -
  have dist: "distance (unit_ball 0 1) (unit_ball d 0) = d"
    using assms by (simp add: distance_same_height Ball_new_def)
  have r: "radius (unit_ball 0 1) + radius (unit_ball d 0) = 2 / sqrt pi"
    by (simp add: Ball_new_def)
  have far: "handleBallsCollision (unit_ball 0 1) (unit_ball d 0) 1
               = (unit_ball 0 1, unit_ball d 0)"
    if "2 / sqrt pi < d"
  proof -
    have "\<not> colliding (unit_ball 0 1) (unit_ball d 0)"
      using that by (simp add: colliding_def dist r)
    then show ?thesis by (rule handleBallsCollision_apart)
  qed
  have near: "vel (fst (handleBallsCollision (unit_ball 0 1) (unit_ball d 0) 1)) = \<lparr>x = 0, y = 0\<rparr>
            \<and> vel (snd (handleBallsCollision (unit_ball 0 1) (unit_ball d 0) 1)) = \<lparr>x = 1, y = 0\<rparr>"
    if "d \<le> 2 / sqrt pi"
  proof -
    have c: "colliding (unit_ball 0 1) (unit_ball d 0)"
      using that assms by (simp add: colliding_def dist r)
    have n: "normal (unit_ball 0 1) (unit_ball d 0) = \<lparr>x = 1, y = 0\<rparr>"
      using assms
      by (simp add: normal_def dist) (simp add: Ball_new_def scale_def subtractVectors_def)
    have m: "mass (unit_ball 0 1) = 1" "mass (unit_ball d 0) = 1"
      by (simp_all add: Ball_new_def disc_mass_unit)
    have v: "dot (vel (unit_ball 0 1)) \<lparr>x = 1, y = 0\<rparr> = 1"
      "dot (vel (unit_ball d 0)) \<lparr>x = 1, y = 0\<rparr> = 0"
      by (simp_all add: Ball_new_def dot_def)
    have nv: "newV1 1 1 1 0 1 = 0" "newV2 1 1 1 0 1 = 1"
      by (simp_all add: newV1_def newV2_def)
    show ?thesis
      unfolding handleBallsCollision_colliding [OF c] n m v nv
      by (simp add: Ball_new_def add_def)
  qed
  show ?thesis using far near by blast
qed

theorem head_on_equal_mass_swap_witness:
  "(0::real) < 1 \<and> (0::real) < 3 / 2 \<and> 1 \<le> 2 / sqrt pi \<and> 2 / sqrt pi < 3 / 2
   \<and> vel (fst (handleBallsCollision (unit_ball 0 1) (unit_ball 1 0) 1)) = \<lparr>x = 0, y = 0\<rparr>
   \<and> vel (snd (handleBallsCollision (unit_ball 0 1) (unit_ball 1 0) 1)) = \<lparr>x = 1, y = 0\<rparr>
   \<and> handleBallsCollision (unit_ball 0 1) (unit_ball (3 / 2) 0) 1
       = (unit_ball 0 1, unit_ball (3 / 2) 0)"
proof -
  have p1: "(0::real) < 1" and p2: "(0::real) < 3 / 2"
    by simp_all
  show ?thesis
    using head_on_equal_mass_swap [OF p1] head_on_equal_mass_swap [OF p2] two_unit_radii_bounds
    by simp
qed

section \<open>Starting a charge\<close>

text \<open>
  Claim C8 says that \<open>startCharge\<close> called on a cue that is already charging changes
  nothing. \<open>Cue.startCharge\<close> has no guard: it sets the flag and overwrites the start
  time with the current time, so a cue charging since 1000 that is started again at 1500
  has start time 1500.
\<close>

theorem startCharge_while_charging_counterexample:
  "isCharging (startCharge 1000 Cue_new)
   \<and> startChargeTime (startCharge 1000 Cue_new) = 1000
   \<and> startChargeTime (startCharge 1500 (startCharge 1000 Cue_new)) = 1500
   \<and> startCharge 1500 (startCharge 1000 Cue_new) \<noteq> startCharge 1000 Cue_new"
  by (simp add: startCharge_def Cue_new_def)

text \<open>
  Claim C8, amended. The guard is in the caller: \<open>Game.handleKeyDown\<close> calls
  \<open>startCharge\<close> only for the space key and only when the cue is not charging. A key
  press while charging leaves the whole game state, the start time included, as it was,
  and so does any key other than space; a space key press while idle changes the cue
  alone, by \<open>startCharge\<close>, which sets the flag and records the current time.
  \<open>Cue.startCharge\<close> itself always sets the flag and records the current time.
\<close>

theorem key_down_ignored_while_charging:
  "(isCharging (cue g) \<longrightarrow> handleKeyDown code now g = g)
   \<and> (code \<noteq> ''Space'' \<longrightarrow> handleKeyDown code now g = g)
   \<and> (\<not> isCharging (cue g) \<longrightarrow>
        handleKeyDown ''Space'' now g = g\<lparr>cue := startCharge now (cue g)\<rparr>
      \<and> cue (handleKeyDown ''Space'' now g)
          = (cue g)\<lparr>isCharging := True, startChargeTime := now\<rparr>)
   \<and> isCharging (startCharge now c)
   \<and> startChargeTime (startCharge now c) = now"
  by (simp add: handleKeyDown_def startCharge_def)

theorem key_down_ignored_while_charging_witness:
  "isCharging (cue (game_with (startCharge 1000 Cue_new)))
   \<and> handleKeyDown ''Space'' 1500 (game_with (startCharge 1000 Cue_new))
       = game_with (startCharge 1000 Cue_new)
   \<and> startChargeTime (cue (handleKeyDown ''Space'' 1500 (game_with (startCharge 1000 Cue_new))))
       = 1000
   \<and> \<not> isCharging (cue (game_with Cue_new))
   \<and> ''Enter'' \<noteq> ''Space''
   \<and> handleKeyDown ''Enter'' 1500 (game_with Cue_new) = game_with Cue_new
   \<and> cue (handleKeyDown ''Space'' 1500 (game_with Cue_new))
       = Cue_new\<lparr>isCharging := True, startChargeTime := 1500\<rparr>"
proof -
  have c1: "isCharging (cue (game_with (startCharge 1000 Cue_new)))"
    by (simp add: startCharge_def)
  have c0: "\<not> isCharging (cue (game_with Cue_new))"
    by (simp add: Cue_new_def)
  have k: "''Enter'' \<noteq> ''Space''"
    by simp
  have t: "startChargeTime (cue (game_with (startCharge 1000 Cue_new))) = 1000"
    by (simp add: startCharge_def)
  show ?thesis
    using key_down_ignored_while_charging
        [of "game_with (startCharge 1000 Cue_new)" "''Space''" 1500]
      key_down_ignored_while_charging [of "game_with Cue_new" "''Enter''" 1500]
      key_down_ignored_while_charging [of "game_with Cue_new" "''Space''" 1500] c1 c0 k t
    by simp
qed

section \<open>Releasing the cue\<close>

text \<open>
  Claim C9. Releasing a charging cue sets its power to 0, its charging flag to false,
  its start time to 0 and its angle to \<open>undefined\<close>, and leaves the draw-back offset
  \<open>shift\<close> at the value it had before the release.
\<close>

theorem release_keeps_shift:
  "isCharging c \<Longrightarrow>
     power_c (snd (release b c)) = 0
   \<and> \<not> isCharging (snd (release b c))
   \<and> startChargeTime (snd (release b c)) = 0
   \<and> angle (snd (release b c)) = None
   \<and> shift (snd (release b c)) = shift c"
  by (simp add: release_def reset_def Let_def)

theorem release_keeps_shift_witness:
  "isCharging charged_cue
   \<and> shift charged_cue = 15
   \<and> shift (snd (release cue_ball charged_cue)) = 15
   \<and> power_c (snd (release cue_ball charged_cue)) = 0
   \<and> \<not> isCharging (snd (release cue_ball charged_cue))
   \<and> startChargeTime (snd (release cue_ball charged_cue)) = 0
   \<and> angle (snd (release cue_ball charged_cue)) = None"
  using release_keeps_shift [of charged_cue cue_ball]
  by simp

section \<open>Reflection whatever the direction of motion\<close>




end
